theory Spec2Isabelle
  imports Complex_Main
begin

section \<open>Numbers\<close>

text \<open>
  Every numeric field of the game is a TypeScript \<open>number\<close>. The model keeps the
  special value \<open>NaN\<close> (the result of \<open>Number\<close> on a token that is not a number, or
  of arithmetic on \<open>undefined\<close>) and treats every other value as an exact real:
  rounding, the infinities and the sign of zero are outside the model. Arithmetic with
  \<open>NaN\<close> gives \<open>NaN\<close>, and every comparison with \<open>NaN\<close> is false. The program divides
  by the constants \<open>2\<close> and \<open>m - 1\<close> only and takes remainders by the constant \<open>m\<close>
  only; a zero divisor is mapped to \<open>NaN\<close>.
\<close>

datatype num = Num real | NaN

text \<open>
  The operators \<open>+\<close>, \<open>-\<close>, \<open>*\<close>, \<open>/\<close>, \<open><\<close> and \<open>\<le>\<close> of the language on these
  values (\<open>a > b\<close> is \<open>b < a\<close> and \<open>a \<ge> b\<close> is \<open>b \<le> a\<close>); \<open>inverse\<close> is there for
  the notation \<open>/\<close> only.
\<close>

instantiation num :: "{plus, minus, times, inverse, ord}"
begin

fun plus_num :: "num \<Rightarrow> num \<Rightarrow> num" where
  "plus_num (Num x) (Num y) = Num (x + y)"
| "plus_num _ _ = NaN"

fun minus_num :: "num \<Rightarrow> num \<Rightarrow> num" where
  "minus_num (Num x) (Num y) = Num (x - y)"
| "minus_num _ _ = NaN"

fun times_num :: "num \<Rightarrow> num \<Rightarrow> num" where
  "times_num (Num x) (Num y) = Num (x * y)"
| "times_num _ _ = NaN"

fun divide_num :: "num \<Rightarrow> num \<Rightarrow> num" where
  "divide_num (Num x) (Num y) = (if y = 0 then NaN else Num (x / y))"
| "divide_num _ _ = NaN"

fun inverse_num :: "num \<Rightarrow> num" where
  "inverse_num (Num x) = (if x = 0 then NaN else Num (inverse x))"
| "inverse_num NaN = NaN"

fun less_num :: "num \<Rightarrow> num \<Rightarrow> bool" where
  "less_num (Num x) (Num y) = (x < y)"
| "less_num _ _ = False"

fun less_eq_num :: "num \<Rightarrow> num \<Rightarrow> bool" where
  "less_eq_num (Num x) (Num y) = (x \<le> y)"
| "less_eq_num _ _ = False"

instance ..

end

text \<open>
  The remainder operator \<open>%\<close>: the result has the sign of the dividend, that is
  \<open>x - y * q\<close> where \<open>q\<close> is the quotient \<open>x / y\<close> rounded towards zero.
\<close>

definition trunc :: "real \<Rightarrow> int" where
  "trunc x = (if 0 \<le> x then \<lfloor>x\<rfloor> else \<lceil>x\<rceil>)"

fun rem :: "num \<Rightarrow> num \<Rightarrow> num" where
  "rem (Num x) (Num y) = (if y = 0 then NaN else Num (x - y * of_int (trunc (x / y))))"
| "rem _ _ = NaN"

section \<open>Types and constants (types.ts)\<close>

definition CANVAS_WIDTH :: num where "CANVAS_WIDTH = Num 600"
definition CANVAS_HEIGHT :: num where "CANVAS_HEIGHT = Num 400"
definition BIRB_WIDTH :: num where "BIRB_WIDTH = Num 42"
definition PIPE_WIDTH :: num where "PIPE_WIDTH = Num 50"
definition TICK_RATE_MS :: num where "TICK_RATE_MS = Num 16"
definition GRAVITY :: num where "GRAVITY = Num (4 / 10)"
definition PIPE_SPEED :: num where "PIPE_SPEED = Num 3"
definition STRENGTH :: num where "STRENGTH = Num (- 7)"
definition SEED :: num where "SEED = Num 1234"

record Bird =
  verticalPosition :: num
  verticalVelocity :: num

record Pipe =
  horizontalPosition :: num
  gapY :: num
  gapHeight :: num
  time :: num
  collided :: bool
  passed :: bool

text \<open>
  \<open>score\<close> and \<open>lives\<close> are counters: \<open>initialState\<close> sets them to \<open>0\<close> and \<open>3\<close>, and
  the reducers only add a sum of \<open>scoreIncrease\<close> values (each \<open>0\<close> or \<open>1\<close>) and
  subtract \<open>1\<close>. They are modelled as integers.
\<close>

record State =
  bird :: Bird
  pipes :: "Pipe list"
  score :: int
  lives :: int
  gameEnd :: bool
  gameTime :: num
  gameStarted :: bool

definition initialBird :: Bird where
  "initialBird = \<lparr>verticalPosition = CANVAS_HEIGHT / Num 2, verticalVelocity = Num 0\<rparr>"

definition initialState :: State where
  "initialState = \<lparr>bird = initialBird, pipes = [], score = 0, lives = 3,
     gameEnd = False, gameTime = Num 0, gameStarted = False\<rparr>"

record PipeProcessResult =
  pipe :: Pipe
  hitPipe :: bool
  scoreIncrease :: int
  velocityAdjustment :: num

section \<open>Utilities (util.ts)\<close>

subsection \<open>The random number generator\<close>

definition RNG_m :: num where "RNG_m = Num 2147483648"
definition RNG_a :: num where "RNG_a = Num 1103515245"
definition RNG_c :: num where "RNG_c = Num 12345"

definition RNG_hash :: "num \<Rightarrow> num" where
  "RNG_hash seed = rem (RNG_a * seed + RNG_c) RNG_m"

definition RNG_scale :: "num \<Rightarrow> num" where
  "RNG_scale hash = (Num 2 * hash) / (RNG_m - Num 1) - Num 1"

text \<open>
  Every call of \<open>createRandomVelocity\<close> passes the velocity, so its default value
  is never taken.
\<close>

definition createRandomVelocity :: "num \<Rightarrow> bool \<Rightarrow> bool \<Rightarrow> bool \<Rightarrow> num" where
  "createRandomVelocity velocity hitTop hitBottom hasCollision =
     (let hash = RNG_hash (SEED + velocity);
          scaled = RNG_scale hash
      in if hasCollision
         then if hitTop then Num 5 + ((scaled + Num 1) / Num 2) * Num 5
              else if hitBottom then Num (- 10) + ((scaled + Num 1) / Num 2) * Num 5
              else Num 0
         else Num 0)"

subsection \<open>Processing one pipe\<close>

text \<open>
  The local constants \<open>inXRange\<close> and \<open>inYGap\<close> of \<open>processPipe\<close>. The flags
  \<open>collided\<close> and \<open>passed\<close> of a pipe are booleans, so \<open>pipe.collided ?? false\<close> is
  \<open>collided p\<close>, and \<open>passed\<close> likewise.
\<close>

definition inXRange :: "Pipe \<Rightarrow> num \<Rightarrow> bool" where
  "inXRange p birdX \<longleftrightarrow>
     birdX + BIRB_WIDTH / Num 2 > horizontalPosition p \<and>
     birdX - BIRB_WIDTH / Num 2 < horizontalPosition p + PIPE_WIDTH"

definition inYGap :: "Pipe \<Rightarrow> num \<Rightarrow> bool" where
  "inYGap p birdPosition \<longleftrightarrow>
     birdPosition > gapY p - gapHeight p / Num 2 \<and>
     birdPosition < gapY p + gapHeight p / Num 2"

definition processPipe :: "Pipe \<Rightarrow> num \<Rightarrow> num \<Rightarrow> num \<Rightarrow> PipeProcessResult" where
  "processPipe p birdX birdVelocity birdPosition =
     (let hasCollision = \<not> collided p \<and> inXRange p birdX \<and> \<not> inYGap p birdPosition;
          newCollided = collided p \<or> hasCollision;
          hitTop = hasCollision \<and> birdPosition < gapY p;
          hitBottom = hasCollision \<and> birdPosition \<ge> gapY p;
          velocityAdjustment = createRandomVelocity birdVelocity hitTop hitBottom hasCollision;
          hasPassed = \<not> passed p \<and> \<not> newCollided \<and> horizontalPosition p + PIPE_WIDTH < birdX;
          newPassed = passed p \<or> hasPassed;
          scoreIncrease = (if hasPassed then 1 else 0)
      in \<lparr>pipe = p\<lparr>horizontalPosition := horizontalPosition p - PIPE_SPEED,
                     collided := newCollided, passed := newPassed\<rparr>,
          hitPipe = hasCollision,
          scoreIncrease = scoreIncrease,
          velocityAdjustment = velocityAdjustment\<rparr>)"

subsection \<open>Aggregating the results of a tick\<close>

record PipeAggregate =
  agg_hitPipe :: bool
  totalScoreIncrease :: int
  pipeVelocityAdjustment :: num

definition aggregatePipeResults :: "PipeProcessResult list \<Rightarrow> PipeAggregate" where
  "aggregatePipeResults results =
     \<lparr>agg_hitPipe = list_ex hitPipe results,
      totalScoreIncrease = foldl (\<lambda>sum result. sum + scoreIncrease result) 0 results,
      pipeVelocityAdjustment =
        foldl (\<lambda>sum result. sum + velocityAdjustment result) (Num 0) results\<rparr>"

subsection \<open>Parsing a line of the pipe schedule\<close>

text \<open>
  \<open>line.split(",")\<close>: the tokens between the commas, at least one (the empty line
  has the one token \<open>""\<close>).
\<close>

fun split_comma :: "string \<Rightarrow> string list" where
  "split_comma [] = [[]]"
| "split_comma (c # cs) =
     (if c = CHR '','' then [] # split_comma cs
      else (case split_comma cs of
              [] \<Rightarrow> [[c]]
            | t # ts \<Rightarrow> (c # t) # ts))"

text \<open>
  The array destructuring \<open>[gap_y_frac, gap_height_frac, time_sec]\<close> binds element \<open>i\<close>
  of the array, or \<open>undefined\<close> past its end; the multiplications that follow turn
  \<open>undefined\<close> into \<open>NaN\<close>, which is the value taken here.
\<close>

definition element :: "num list \<Rightarrow> nat \<Rightarrow> num" where
  "element xs i = (if i < length xs then xs ! i else NaN)"

text \<open>
  The conversion \<open>Number\<close> of a token is a built-in of the language, not code of the
  program: \<open>parsePipeLine\<close> takes it as the parameter \<open>toNumber\<close>.
\<close>

definition parsePipeLine :: "(string \<Rightarrow> num) \<Rightarrow> string \<Rightarrow> Pipe" where
  "parsePipeLine toNumber line =
     (let fields = map toNumber (split_comma line);
          gap_y_frac = element fields 0;
          gap_height_frac = element fields 1;
          time_sec = element fields 2
      in \<lparr>horizontalPosition = CANVAS_WIDTH,
          gapY = gap_y_frac * CANVAS_HEIGHT,
          gapHeight = gap_height_frac * CANVAS_HEIGHT,
          time = time_sec * Num 1000,
          collided = False,
          passed = False\<rparr>)"

text \<open>
  The values of \<open>Number\<close> on the tokens of the example records used below: \<open>0.5\<close>,
  \<open>0.3\<close> and \<open>1\<close> are decimal literals, \<open>abc\<close> is not a number.
\<close>

definition exampleNumber :: "string \<Rightarrow> num" where
  "exampleNumber t =
     (if t = ''0.5'' then Num (5 / 10)
      else if t = ''0.3'' then Num (3 / 10)
      else if t = ''1'' then Num 1
      else NaN)"

section \<open>Reducers (state.ts)\<close>

definition birdX :: num where
  "birdX = CANVAS_WIDTH * Num (3 / 10)"

definition tick :: "State \<Rightarrow> State" where
  "tick s =
     (if gameEnd s then s
      else
        let newVelocity = verticalVelocity (bird s) + GRAVITY;
            newPosition = verticalPosition (bird s) + newVelocity;
            pipeResults = map (\<lambda>p. processPipe p birdX newVelocity newPosition) (pipes s);
            newPipes = filter (\<lambda>p. horizontalPosition p + PIPE_WIDTH > Num 0)
                         (map pipe pipeResults);
            agg = aggregatePipeResults pipeResults;
            hitTop = newPosition \<le> Num 0;
            hitBottom = newPosition \<ge> CANVAS_HEIGHT;
            hasCollision = hitTop \<or> hitBottom;
            boundaryVelocityAdjustment =
              createRandomVelocity newVelocity hitTop hitBottom hasCollision;
            hitBoundary = hitTop \<or> hitBottom;
            loseLife = hitBoundary \<or> agg_hitPipe agg;
            newLives = (if loseLife then lives s - 1 else lives s);
            gameEnd' = newLives \<le> 0 \<or> (gameStarted s \<and> length newPipes = 0);
            finalVelocity =
              newVelocity + pipeVelocityAdjustment agg + boundaryVelocityAdjustment;
            finalPosition = verticalPosition (bird s) + finalVelocity;
            newBird = \<lparr>verticalPosition = finalPosition, verticalVelocity = finalVelocity\<rparr>
        in s\<lparr>bird := newBird, pipes := newPipes, lives := newLives, gameEnd := gameEnd',
             score := score s + totalScoreIncrease agg,
             gameTime := gameTime s + TICK_RATE_MS\<rparr>)"

definition jump :: "State \<Rightarrow> State" where
  "jump s = s\<lparr>bird := (bird s)\<lparr>verticalVelocity := STRENGTH\<rparr>\<rparr>"

text \<open>
  The local constants of \<open>tick\<close> that the properties below speak about, as functions
  of the state the tick starts from.
\<close>

definition newVelocity :: "State \<Rightarrow> num" where
  "newVelocity s = verticalVelocity (bird s) + GRAVITY"

definition newPosition :: "State \<Rightarrow> num" where
  "newPosition s = verticalPosition (bird s) + newVelocity s"

definition pipeResults :: "State \<Rightarrow> PipeProcessResult list" where
  "pipeResults s = map (\<lambda>p. processPipe p birdX (newVelocity s) (newPosition s)) (pipes s)"

definition boundaryVelocityAdjustment :: "State \<Rightarrow> num" where
  "boundaryVelocityAdjustment s =
     createRandomVelocity (newVelocity s)
       (newPosition s \<le> Num 0)
       (newPosition s \<ge> CANVAS_HEIGHT)
       (newPosition s \<le> Num 0 \<or> newPosition s \<ge> CANVAS_HEIGHT)"

section \<open>The event stream (main.ts)\<close>

text \<open>
  The reducer that \<open>createPipeStream$\<close> emits for a pipe of the schedule.
\<close>

definition spawn :: "Pipe \<Rightarrow> State \<Rightarrow> State" where
  "spawn p s = s\<lparr>pipes := pipes s @ [p], gameStarted := True\<rparr>"

text \<open>
  \<open>state$\<close> merges three sources of reducers (the clock, the schedule, the space key)
  and folds them over the state with \<open>scan\<close>. A merged stream is the list of its
  reducers in order of arrival.
\<close>

datatype Reducer = Tick | Spawn Pipe | Jump

fun applyReducer :: "Reducer \<Rightarrow> State \<Rightarrow> State" where
  "applyReducer Tick s = tick s"
| "applyReducer (Spawn p) s = spawn p s"
| "applyReducer Jump s = jump s"

definition scan :: "State \<Rightarrow> Reducer list \<Rightarrow> State" where
  "scan s reducers = foldl (\<lambda>state reducerFn. applyReducer reducerFn state) s reducers"

text \<open>
  \<open>interval\<close> emits \<open>0, 1, 2, \<dots>\<close>, one number each tick of the clock, and
  \<open>take(path.length)\<close> keeps the first \<open>path.length\<close> of them and completes: the
  numbers \<open>0, \<dots>, path.length - 1\<close>. The ghost is the list of the values it emits
  before it completes, one each tick; \<open>None\<close> is \<open>null\<close>.
\<close>

definition createGhost :: "num list \<Rightarrow> num option list" where
  "createGhost path =
     map (\<lambda>i. if int i < int (length path) - 1 then Some (path ! i) else None)
       [0..<length path]"

section \<open>Example values\<close>

definition pipeAt :: "real \<Rightarrow> real \<Rightarrow> real \<Rightarrow> Pipe" where
  "pipeAt x y h = \<lparr>horizontalPosition = Num x, gapY = Num y, gapHeight = Num h,
     time = Num 0, collided = False, passed = False\<rparr>"

definition birdAt :: "real \<Rightarrow> real \<Rightarrow> Bird" where
  "birdAt y v = \<lparr>verticalPosition = Num y, verticalVelocity = Num v\<rparr>"

section \<open>Unfolding the definitions\<close>

lemmas constants_defs =
  CANVAS_WIDTH_def CANVAS_HEIGHT_def BIRB_WIDTH_def PIPE_WIDTH_def TICK_RATE_MS_def
  GRAVITY_def PIPE_SPEED_def STRENGTH_def SEED_def

lemmas rng_defs = RNG_hash_def RNG_scale_def RNG_m_def RNG_a_def RNG_c_def trunc_def

lemmas tick_locals_defs =
  newVelocity_def newPosition_def pipeResults_def boundaryVelocityAdjustment_def

lemmas example_defs = pipeAt_def birdAt_def initialState_def initialBird_def

text \<open>What a tick returns, field by field, while the game is running.\<close>

lemma tick_running:
  assumes "\<not> gameEnd s"
  shows "verticalVelocity (bird (tick s)) =
           newVelocity s + pipeVelocityAdjustment (aggregatePipeResults (pipeResults s))
             + boundaryVelocityAdjustment s"
    and "verticalPosition (bird (tick s)) =
           verticalPosition (bird s) + verticalVelocity (bird (tick s))"
    and "lives (tick s) =
           (if newPosition s \<le> Num 0 \<or> newPosition s \<ge> CANVAS_HEIGHT
               \<or> agg_hitPipe (aggregatePipeResults (pipeResults s))
            then lives s - 1 else lives s)"
    and "score (tick s) = score s + totalScoreIncrease (aggregatePipeResults (pipeResults s))"
    and "pipes (tick s) =
           filter (\<lambda>p. horizontalPosition p + PIPE_WIDTH > Num 0) (map pipe (pipeResults s))"
  using assms by (simp_all add: tick_def Let_def tick_locals_defs)

lemma agg_hitPipe_iff:
  "agg_hitPipe (aggregatePipeResults (pipeResults s)) \<longleftrightarrow>
     (\<exists>p \<in> set (pipes s). hitPipe (processPipe p birdX (newVelocity s) (newPosition s)))"
  by (auto simp add: aggregatePipeResults_def pipeResults_def list_ex_iff)

lemma foldl_score_sum:
  "foldl (\<lambda>sum result. sum + scoreIncrease result) acc rs =
     acc + sum_list (map scoreIncrease rs)"
  by (induction rs arbitrary: acc) simp_all

lemma scoreIncrease_nonneg: "0 \<le> scoreIncrease (processPipe p x v y)"
  by (simp add: processPipe_def Let_def)

lemma totalScoreIncrease_nonneg:
  "0 \<le> totalScoreIncrease (aggregatePipeResults (map (\<lambda>p. processPipe p x v y) ps))"
proof -
  have "0 \<le> sum_list (map (\<lambda>p. scoreIncrease (processPipe p x v y)) ps)"
    by (rule sum_list_nonneg) (auto simp add: scoreIncrease_nonneg)
  then show ?thesis
    by (simp add: aggregatePipeResults_def foldl_score_sum comp_def)
qed

section \<open>Terminal state\<close>

text \<open>
  Claim C1, as the code has it. In a state with \<open>gameEnd\<close> set, \<open>tick\<close> returns the
  state unchanged. \<open>jump\<close> has no such guard: it returns the state with the bird's
  vertical velocity set to \<open>STRENGTH\<close> and every other field unchanged, so it returns
  the same state exactly when the velocity is \<open>STRENGTH\<close> already.
\<close>

theorem gameEnd_tick_fixed_jump_velocity:
  fixes s :: State
  assumes "gameEnd s"
  shows "tick s = s \<and>
         jump s = s\<lparr>bird := (bird s)\<lparr>verticalVelocity := STRENGTH\<rparr>\<rparr> \<and>
         (jump s = s \<longleftrightarrow> verticalVelocity (bird s) = STRENGTH)"
proof -
  have "jump s = s \<longleftrightarrow> verticalVelocity (bird s) = STRENGTH"
  proof
    assume "jump s = s"
    then have "verticalVelocity (bird (jump s)) = verticalVelocity (bird s)" by simp
    then show "verticalVelocity (bird s) = STRENGTH" by (simp add: jump_def)
  next
    assume "verticalVelocity (bird s) = STRENGTH"
    then show "jump s = s" by (simp add: jump_def)
  qed
  with assms show ?thesis by (simp add: tick_def jump_def)
qed

theorem gameEnd_tick_fixed_jump_velocity_witness:
  "gameEnd (initialState\<lparr>gameEnd := True\<rparr>) \<and>
   tick (initialState\<lparr>gameEnd := True\<rparr>) = initialState\<lparr>gameEnd := True\<rparr> \<and>
   verticalVelocity (bird (jump (initialState\<lparr>gameEnd := True\<rparr>))) = Num (- 7)"
proof -
  have g: "gameEnd (initialState\<lparr>gameEnd := True\<rparr>)" by simp
  from gameEnd_tick_fixed_jump_velocity [OF g] g show ?thesis
    by (simp add: STRENGTH_def)
qed

text \<open>
  The claim as the specification states it fails for \<open>jump\<close>: in the ended initial state
  the bird's velocity is \<open>0\<close>, and \<open>jump\<close> makes it \<open>-7\<close>.
\<close>

theorem jump_after_gameEnd_counterexample:
  "gameEnd (initialState\<lparr>gameEnd := True\<rparr>) \<and>
   jump (initialState\<lparr>gameEnd := True\<rparr>) \<noteq> initialState\<lparr>gameEnd := True\<rparr>"
  by (simp add: jump_def initialState_def initialBird_def STRENGTH_def CANVAS_HEIGHT_def)

section \<open>Malformed schedule records\<close>

lemma inYGap_NaN: "gapY p = NaN \<or> gapHeight p = NaN \<Longrightarrow> \<not> inYGap p y"
  by (cases y) (auto simp add: inYGap_def)

lemma parsePipeLine_example:
  "parsePipeLine exampleNumber ''abc,0.3,1'' =
     \<lparr>horizontalPosition = Num 600, gapY = NaN, gapHeight = Num 120, time = Num 1000,
      collided = False, passed = False\<rparr>"
  by (simp add: parsePipeLine_def exampleNumber_def element_def constants_defs)

text \<open>
  Claim C2, as the code has it. A token among the first three of a record that
  \<open>Number\<close> maps to \<open>NaN\<close> (or that is missing) makes the field read from it \<open>NaN\<close>:
  \<open>gapY\<close>, \<open>gapHeight\<close> or \<open>time\<close> in this order; \<open>horizontalPosition\<close> is the canvas
  width whatever the record holds. For every pipe whose \<open>gapY\<close> or \<open>gapHeight\<close> is
  \<open>NaN\<close>, at every bird position and velocity, the gap test is false, so \<open>hitPipe\<close> is
  true exactly when the pipe has not collided before and the bird overlaps it
  horizontally, and \<open>scoreIncrease\<close> is \<open>1\<close> exactly when the pipe has neither passed nor
  collided, the bird does not overlap it and its trailing edge is left of the bird.
  When \<open>gapY\<close> is \<open>NaN\<close> the collision gives no knockback.
\<close>

theorem NaN_gap_pipe_collides_and_scores:
  assumes "i < 3" and "element (map toNumber (split_comma line)) i = NaN"
  shows "[gapY (parsePipeLine toNumber line), gapHeight (parsePipeLine toNumber line),
          time (parsePipeLine toNumber line)] ! i = NaN \<and>
    horizontalPosition (parsePipeLine toNumber line) = CANVAS_WIDTH \<and>
    (\<forall>q x v y. gapY q = NaN \<or> gapHeight q = NaN \<longrightarrow>
       hitPipe (processPipe q x v y) = (\<not> collided q \<and> inXRange q x) \<and>
       scoreIncrease (processPipe q x v y) =
         (if \<not> passed q \<and> \<not> collided q \<and> \<not> inXRange q x \<and>
             horizontalPosition q + PIPE_WIDTH < x then 1 else 0) \<and>
       (gapY q = NaN \<longrightarrow> velocityAdjustment (processPipe q x v y) = Num 0))"
proof -
  from assms(1) have "i = 0 \<or> i = 1 \<or> i = 2" by auto
  with assms(2) have field:
    "[gapY (parsePipeLine toNumber line), gapHeight (parsePipeLine toNumber line),
      time (parsePipeLine toNumber line)] ! i = NaN"
    by (auto simp add: parsePipeLine_def Let_def)
  have width: "horizontalPosition (parsePipeLine toNumber line) = CANVAS_WIDTH"
    by (simp add: parsePipeLine_def Let_def)
  have "hitPipe (processPipe q x v y) = (\<not> collided q \<and> inXRange q x) \<and>
       scoreIncrease (processPipe q x v y) =
         (if \<not> passed q \<and> \<not> collided q \<and> \<not> inXRange q x \<and>
             horizontalPosition q + PIPE_WIDTH < x then 1 else 0) \<and>
       (gapY q = NaN \<longrightarrow> velocityAdjustment (processPipe q x v y) = Num 0)"
    if "gapY q = NaN \<or> gapHeight q = NaN" for q :: Pipe and x v y
  proof -
    from that have "\<not> inYGap q y" by (rule inYGap_NaN)
    then show ?thesis
      by (cases y) (auto simp add: processPipe_def Let_def createRandomVelocity_def)
  qed
  with field width show ?thesis by blast
qed

theorem NaN_gap_pipe_collides_and_scores_witness:
  "element (map exampleNumber (split_comma ''abc,0.3,1'')) 0 = NaN \<and>
   gapY (parsePipeLine exampleNumber ''abc,0.3,1'') = NaN \<and>
   hitPipe (processPipe (parsePipeLine exampleNumber ''abc,0.3,1'')
     (Num 620) (Num 0) (Num 200)) \<and>
   velocityAdjustment (processPipe (parsePipeLine exampleNumber ''abc,0.3,1'')
     (Num 620) (Num 0) (Num 200)) = Num 0"
proof -
  have e: "element (map exampleNumber (split_comma ''abc,0.3,1'')) 0 = NaN"
    by (simp add: element_def exampleNumber_def)
  have z: "(0::nat) < 3" by simp
  have x: "inXRange (parsePipeLine exampleNumber ''abc,0.3,1'') (Num 620)"
    by (simp add: parsePipeLine_example inXRange_def constants_defs)
  have c: "\<not> collided (parsePipeLine exampleNumber ''abc,0.3,1'')"
    by (simp add: parsePipeLine_example)
  from NaN_gap_pipe_collides_and_scores [OF z e] e x c show ?thesis by simp
qed

text \<open>
  The claim as the specification states it fails. The record \<open>abc,0.3,1\<close> gives a pipe
  with \<open>gapY = NaN\<close>. Where the bird overlaps it horizontally (the fresh pipe at \<open>600\<close>
  and a bird at \<open>620\<close>; the pipe moved to \<open>198\<close> and the bird of the game at
  \<open>birdX\<close>) \<open>processPipe\<close> returns \<open>hitPipe = true\<close>, and where the pipe is left of the
  bird (a bird at \<open>700\<close>) it returns \<open>scoreIncrease = 1\<close>. A tick of the game with the
  pipe at \<open>198\<close> takes one of the three lives.
\<close>

theorem malformed_record_counterexample:
  "gapY (parsePipeLine exampleNumber ''abc,0.3,1'') = NaN \<and>
   hitPipe (processPipe (parsePipeLine exampleNumber ''abc,0.3,1'')
     (Num 620) (Num 0) (Num 200)) \<and>
   hitPipe (processPipe
     ((parsePipeLine exampleNumber ''abc,0.3,1'')\<lparr>horizontalPosition := Num 198\<rparr>)
     birdX (Num 0) (Num 200)) \<and>
   scoreIncrease (processPipe (parsePipeLine exampleNumber ''abc,0.3,1'')
     (Num 700) (Num 0) (Num 200)) = 1 \<and>
   lives (tick (initialState\<lparr>pipes :=
     [(parsePipeLine exampleNumber ''abc,0.3,1'')\<lparr>horizontalPosition := Num 198\<rparr>],
     gameStarted := True\<rparr>)) = 2"
  by (simp add: parsePipeLine_example processPipe_def inXRange_def inYGap_def birdX_def
      tick_def Let_def aggregatePipeResults_def example_defs constants_defs)

section \<open>The knockback generator\<close>

text \<open>
  On a seed that is a non-negative integer the generator does what its comments say:
  \<open>hash\<close> is an integer between \<open>0\<close> and \<open>m - 1\<close>, \<open>scale\<close> is in \<open>[-1, 1]\<close>, and the
  knockback is in \<open>[5, 10]\<close> on a top hit and in \<open>[-10, -5]\<close> on a bottom hit.
\<close>

lemma rem_of_int:
  assumes "0 \<le> n" and "0 < m"
  shows "rem (Num (of_int n)) (Num (of_int m)) = Num (of_int (n mod m))"
proof -
  have "(0::real) \<le> of_int n / of_int m" using assms by simp
  then have "trunc (of_int n / of_int m) = n div m"
    by (simp add: trunc_def floor_divide_of_int_eq)
  moreover have "(of_int n :: real) - of_int m * of_int (n div m) = of_int (n mod m)"
    by (simp add: minus_mult_div_eq_mod flip: of_int_mult of_int_diff)
  ultimately show ?thesis using assms by simp
qed

lemma RNG_hash_of_int:
  assumes "0 \<le> k"
  shows "RNG_hash (Num (of_int k)) = Num (of_int ((1103515245 * k + 12345) mod 2147483648))"
proof -
  have "RNG_a * Num (of_int k) + RNG_c = Num (of_int (1103515245 * k + 12345))"
    by (simp add: RNG_a_def RNG_c_def)
  moreover have "RNG_m = Num (of_int 2147483648)" by (simp add: RNG_m_def)
  moreover have "0 \<le> 1103515245 * k + 12345" using assms by simp
  ultimately show ?thesis
    unfolding RNG_hash_def using rem_of_int [of "1103515245 * k + 12345" 2147483648] by simp
qed

lemma createRandomVelocity_integer_seed:
  assumes "0 \<le> 1234 + k"
  shows "\<exists>r. createRandomVelocity (Num (of_int k)) True hitBottom True = Num r \<and>
              5 \<le> r \<and> r \<le> 10"
    and "\<exists>r. createRandomVelocity (Num (of_int k)) False True True = Num r \<and>
              - 10 \<le> r \<and> r \<le> - 5"
proof -
  define h where "h = (1103515245 * (1234 + k) + 12345) mod 2147483648"
  have h: "0 \<le> h" "h \<le> 2147483647" by (simp_all add: h_def)
  have "SEED + Num (of_int k) = Num (of_int (1234 + k))" by (simp add: SEED_def)
  then have hash: "RNG_hash (SEED + Num (of_int k)) = Num (of_int h)"
    using RNG_hash_of_int [OF assms] by (simp add: h_def)
  have r: "(0::real) \<le> of_int h" "(of_int h :: real) \<le> 2147483647" using h by simp_all
  show "\<exists>r. createRandomVelocity (Num (of_int k)) True hitBottom True = Num r \<and>
            5 \<le> r \<and> r \<le> 10"
    using r by (simp add: createRandomVelocity_def hash RNG_scale_def RNG_m_def)
  show "\<exists>r. createRandomVelocity (Num (of_int k)) False True True = Num r \<and>
            - 10 \<le> r \<and> r \<le> - 5"
    using r by (simp add: createRandomVelocity_def hash RNG_scale_def RNG_m_def)
qed

text \<open>
  On a seed that is non-negative but not an integer, \<open>hash\<close> is anywhere in \<open>[0, m)\<close>
  and the upper ends are missed by less than \<open>5 / (m - 1)\<close>.
\<close>

lemma rem_nonneg_range:
  assumes "0 \<le> x" and "0 < m"
  shows "\<exists>h. rem (Num x) (Num m) = Num h \<and> 0 \<le> h \<and> h < m"
proof -
  have q: "0 \<le> x / m" using assms by simp
  have lo: "of_int \<lfloor>x / m\<rfloor> * m \<le> x"
    using floor_divide_lower [OF assms(2), of x] by simp
  have hi: "x < (of_int \<lfloor>x / m\<rfloor> + 1) * m"
    using floor_divide_upper [OF assms(2), of x] by simp
  have "rem (Num x) (Num m) = Num (x - m * of_int \<lfloor>x / m\<rfloor>)"
    using assms q by (simp add: trunc_def)
  moreover have "0 \<le> x - m * of_int \<lfloor>x / m\<rfloor>" using lo by (simp add: mult.commute)
  moreover have "x - m * of_int \<lfloor>x / m\<rfloor> < m" using hi by (simp add: algebra_simps)
  ultimately show ?thesis by blast
qed

lemma createRandomVelocity_nonneg_seed:
  assumes "0 \<le> 1234 + v"
  shows "\<exists>r. createRandomVelocity (Num v) True hitBottom True = Num r \<and>
              5 \<le> r \<and> r < 10 + 5 / 2147483647"
    and "\<exists>r. createRandomVelocity (Num v) False True True = Num r \<and>
              - 10 \<le> r \<and> r < - 5 + 5 / 2147483647"
proof -
  have "0 \<le> 1103515245 * (1234 + v) + 12345" using assms by simp
  from rem_nonneg_range [OF this, of 2147483648]
  obtain h where h: "RNG_hash (SEED + Num v) = Num h" "0 \<le> h" "h < 2147483648"
    by (auto simp add: RNG_hash_def RNG_a_def RNG_c_def RNG_m_def SEED_def)
  show "\<exists>r. createRandomVelocity (Num v) True hitBottom True = Num r \<and>
              5 \<le> r \<and> r < 10 + 5 / 2147483647"
    using h by (simp add: createRandomVelocity_def RNG_scale_def RNG_m_def)
  show "\<exists>r. createRandomVelocity (Num v) False True True = Num r \<and>
              - 10 \<le> r \<and> r < - 5 + 5 / 2147483647"
    using h by (simp add: createRandomVelocity_def RNG_scale_def RNG_m_def)
qed

lemma createRandomVelocity_no_collision:
  "createRandomVelocity velocity hitTop hitBottom False = Num 0"
  by (simp add: createRandomVelocity_def)

text \<open>
  Claim C3: the knockback is in \<open>[5, 10]\<close> on a top hit, in \<open>[-10, -5]\<close> on a bottom
  hit and \<open>0\<close> without a collision, at every velocity. The code breaks it at the
  velocity \<open>-2000\<close>: the seed \<open>1234 - 2000\<close> is negative, the remainder \<open>%\<close> keeps the
  sign of the dividend, so \<open>hash\<close> is \<open>-1331591661\<close> and \<open>scale\<close> falls below \<open>-1\<close>; the
  knockback is about \<open>1.9\<close> on a top hit and about \<open>-13.1\<close> on a bottom hit.
\<close>

theorem createRandomVelocity_negative_seed:
  "RNG_hash (SEED + Num (- 2000)) = Num (- 1331591661) \<and>
   \<not> Num (- 1) \<le> RNG_scale (RNG_hash (SEED + Num (- 2000))) \<and>
   createRandomVelocity (Num (- 2000)) True False True = Num (4079459930 / 2147483647) \<and>
   \<not> Num 5 \<le> createRandomVelocity (Num (- 2000)) True False True \<and>
   createRandomVelocity (Num (- 2000)) False True True = Num (- (28132794775 / 2147483647)) \<and>
   \<not> Num (- 10) \<le> createRandomVelocity (Num (- 2000)) False True True"
  by (simp add: createRandomVelocity_def rng_defs SEED_def)

section \<open>The top edge\<close>

text \<open>
  Claim C4, as the code has it. Take a running state with no pipes and the bird at
  vertical position \<open>0\<close>. At velocity \<open>2\<close> gravity makes the velocity \<open>2.4\<close> and the
  reference position \<open>2.4\<close>, which is inside the canvas: no boundary collision is
  flagged, \<open>lives\<close> is unchanged and the boundary velocity adjustment is \<open>0\<close>. At
  velocity \<open>-2\<close> the reference position is \<open>-1.6\<close>: the top edge is hit, \<open>lives\<close> goes
  down by one and the boundary velocity adjustment is positive and in \<open>[5, 10]\<close>.
\<close>

theorem tick_top_edge_example:
  fixes s :: State
  assumes "\<not> gameEnd s" and "pipes s = []" and "verticalPosition (bird s) = Num 0"
  shows "(verticalVelocity (bird s) = Num 2 \<longrightarrow>
            newPosition s = Num (24 / 10) \<and>
            \<not> newPosition s \<le> Num 0 \<and> \<not> newPosition s \<ge> CANVAS_HEIGHT \<and>
            lives (tick s) = lives s \<and>
            boundaryVelocityAdjustment s = Num 0 \<and>
            bird (tick s) = birdAt (24 / 10) (24 / 10)) \<and>
         (verticalVelocity (bird s) = Num (- 2) \<longrightarrow>
            newPosition s = Num (- 16 / 10) \<and>
            newPosition s \<le> Num 0 \<and>
            lives (tick s) = lives s - 1 \<and>
            boundaryVelocityAdjustment s = Num (13812673730 / 2147483647) \<and>
            Num 0 < boundaryVelocityAdjustment s \<and>
            Num 5 \<le> boundaryVelocityAdjustment s \<and>
            boundaryVelocityAdjustment s \<le> Num 10)"
proof (intro conjI impI)
  assume v: "verticalVelocity (bird s) = Num 2"
  with assms show "newPosition s = Num (24 / 10)"
    by (simp add: tick_locals_defs constants_defs)
  then show "\<not> newPosition s \<le> Num 0" "\<not> newPosition s \<ge> CANVAS_HEIGHT"
    by (simp_all add: constants_defs)
  then show b: "boundaryVelocityAdjustment s = Num 0"
    by (simp add: boundaryVelocityAdjustment_def createRandomVelocity_no_collision)
  from assms v show "lives (tick s) = lives s"
    by (simp add: tick_def Let_def aggregatePipeResults_def constants_defs)
  from assms v show "bird (tick s) = birdAt (24 / 10) (24 / 10)"
    by (simp add: tick_def Let_def aggregatePipeResults_def constants_defs birdAt_def
        createRandomVelocity_no_collision)
next
  assume v: "verticalVelocity (bird s) = Num (- 2)"
  with assms show p: "newPosition s = Num (- 16 / 10)"
    by (simp add: tick_locals_defs constants_defs)
  then show "newPosition s \<le> Num 0" by simp
  from assms v show "lives (tick s) = lives s - 1"
    by (simp add: tick_def Let_def aggregatePipeResults_def constants_defs)
  from assms v show b: "boundaryVelocityAdjustment s = Num (13812673730 / 2147483647)"
    by (simp add: tick_locals_defs createRandomVelocity_def rng_defs constants_defs)
  then show "Num 0 < boundaryVelocityAdjustment s"
    "Num 5 \<le> boundaryVelocityAdjustment s" "boundaryVelocityAdjustment s \<le> Num 10"
    by simp_all
qed

theorem tick_top_edge_example_witness:
  "\<not> gameEnd (initialState\<lparr>bird := birdAt 0 (- 2)\<rparr>) \<and>
   pipes (initialState\<lparr>bird := birdAt 0 (- 2)\<rparr>) = [] \<and>
   verticalPosition (bird (initialState\<lparr>bird := birdAt 0 (- 2)\<rparr>)) = Num 0 \<and>
   verticalVelocity (bird (initialState\<lparr>bird := birdAt 0 (- 2)\<rparr>)) = Num (- 2) \<and>
   lives (tick (initialState\<lparr>bird := birdAt 0 (- 2)\<rparr>)) = 2"
proof -
  have g: "\<not> gameEnd (initialState\<lparr>bird := birdAt 0 (- 2)\<rparr>)"
    and p: "pipes (initialState\<lparr>bird := birdAt 0 (- 2)\<rparr>) = []"
    and y: "verticalPosition (bird (initialState\<lparr>bird := birdAt 0 (- 2)\<rparr>)) = Num 0"
    and v: "verticalVelocity (bird (initialState\<lparr>bird := birdAt 0 (- 2)\<rparr>)) = Num (- 2)"
    and l: "lives (initialState\<lparr>bird := birdAt 0 (- 2)\<rparr>) = 3"
    by (simp_all add: example_defs)
  from tick_top_edge_example [OF g p y] g p y v l show ?thesis by simp
qed

text \<open>
  The example as the specification states it fails: from position \<open>0\<close> at velocity
  \<open>2\<close> one tick flags no boundary collision, keeps the three lives and computes a
  boundary velocity adjustment of \<open>0\<close>, which is not strictly positive.
\<close>

theorem tick_top_edge_velocity_2_counterexample:
  "\<not> gameEnd (initialState\<lparr>bird := birdAt 0 2\<rparr>) \<and>
   pipes (initialState\<lparr>bird := birdAt 0 2\<rparr>) = [] \<and>
   bird (initialState\<lparr>bird := birdAt 0 2\<rparr>) =
     \<lparr>verticalPosition = Num 0, verticalVelocity = Num 2\<rparr> \<and>
   \<not> newPosition (initialState\<lparr>bird := birdAt 0 2\<rparr>) \<le> Num 0 \<and>
   \<not> newPosition (initialState\<lparr>bird := birdAt 0 2\<rparr>) \<ge> CANVAS_HEIGHT \<and>
   lives (initialState\<lparr>bird := birdAt 0 2\<rparr>) = 3 \<and>
   lives (tick (initialState\<lparr>bird := birdAt 0 2\<rparr>)) = 3 \<and>
   boundaryVelocityAdjustment (initialState\<lparr>bird := birdAt 0 2\<rparr>) = Num 0 \<and>
   \<not> Num 0 < boundaryVelocityAdjustment (initialState\<lparr>bird := birdAt 0 2\<rparr>)"
  by (simp add: tick_def Let_def aggregatePipeResults_def tick_locals_defs example_defs
      createRandomVelocity_def constants_defs)

section \<open>The ghost replay\<close>

text \<open>
  Claim C5, as the code has it. For a recorded path of length \<open>N\<close> the ghost emits
  exactly \<open>N\<close> values: the recorded position \<open>i\<close> at tick \<open>i\<close> for each \<open>i < N - 1\<close>, and
  the absent marker at the last tick \<open>N - 1\<close>, in place of the last recorded position;
  then it completes. For the empty path it emits nothing, not even the marker.
\<close>

theorem createGhost_emissions:
  "createGhost path = map Some (butlast path) @ (if path = [] then [] else [None]) \<and>
   length (createGhost path) = length path"
proof (cases path rule: rev_cases)
  case Nil
  then show ?thesis by (simp add: createGhost_def)
next
  case (snoc ys y)
  have "map (\<lambda>i. if i < length ys then Some ((ys @ [y]) ! i) else None) [0..<length ys] =
        map Some ys"
    by (rule nth_equalityI) (simp_all add: nth_append)
  with snoc show ?thesis by (simp add: createGhost_def)
qed

theorem createGhost_emissions_witness:
  "createGhost [Num 200, Num 190, Num 185] = [Some (Num 200), Some (Num 190), None] \<and>
   createGhost [] = []"
  using createGhost_emissions [of "[Num 200, Num 190, Num 185]"] createGhost_emissions [of "[]"]
  by simp

text \<open>
  The claim as the specification states it fails: a path of three positions is replayed
  as two positions and the marker, not as three positions and the marker.
\<close>

theorem createGhost_last_position_counterexample:
  "createGhost [Num 200, Num 190, Num 185] = [Some (Num 200), Some (Num 190), None] \<and>
   createGhost [Num 200, Num 190, Num 185] \<noteq>
     map Some [Num 200, Num 190, Num 185] @ [None]"
  by (simp add: createGhost_def upt_rec)

section \<open>Collision and score of one pipe\<close>

text \<open>
  Claim C6. Whenever \<open>processPipe\<close> fires a collision its \<open>scoreIncrease\<close> is \<open>0\<close>, and
  no evaluation turns both \<open>collided\<close> and \<open>passed\<close> of a pipe from false to true.
\<close>

theorem collision_excludes_score:
  fixes p :: Pipe
  shows "(hitPipe (processPipe p x v y) \<longrightarrow> scoreIncrease (processPipe p x v y) = 0) \<and>
         \<not> (\<not> collided p \<and> collided (pipe (processPipe p x v y)) \<and>
            \<not> passed p \<and> passed (pipe (processPipe p x v y)))"
  by (auto simp add: processPipe_def Let_def)

text \<open>
  A pipe whose trailing edge (at \<open>150\<close>) is left of the bird and which the bird (wide
  \<open>42\<close>, at \<open>160\<close>) still overlaps: it collides outside the gap and does not score.
\<close>

theorem collision_excludes_score_witness:
  "hitPipe (processPipe (pipeAt 100 200 100) (Num 160) (Num 0) (Num 10)) \<and>
   horizontalPosition (pipeAt 100 200 100) + PIPE_WIDTH < Num 160 \<and>
   scoreIncrease (processPipe (pipeAt 100 200 100) (Num 160) (Num 0) (Num 10)) = 0"
proof -
  have h: "hitPipe (processPipe (pipeAt 100 200 100) (Num 160) (Num 0) (Num 10))"
    by (simp add: processPipe_def inXRange_def inYGap_def pipeAt_def constants_defs)
  have e: "horizontalPosition (pipeAt 100 200 100) + PIPE_WIDTH < Num 160"
    by (simp add: pipeAt_def constants_defs)
  from collision_excludes_score [of "pipeAt 100 200 100" "Num 160" "Num 0" "Num 10"] h e
  show ?thesis by blast
qed

section \<open>The bird after a tick\<close>

text \<open>
  Claim C7. While the game is running, the bird that \<open>tick\<close> returns has the velocity
  \<open>(velocity + GRAVITY) + pipeVelocityAdjustment + boundaryVelocityAdjustment\<close>, and its
  position is the position before the tick plus that final velocity.
\<close>

theorem tick_final_bird:
  assumes "\<not> gameEnd s"
  shows "verticalVelocity (bird (tick s)) =
           (verticalVelocity (bird s) + GRAVITY)
             + pipeVelocityAdjustment (aggregatePipeResults (pipeResults s))
             + boundaryVelocityAdjustment s \<and>
         verticalPosition (bird (tick s)) =
           verticalPosition (bird s) + verticalVelocity (bird (tick s))"
  using tick_running(1,2) [OF assms] by (simp add: newVelocity_def)

text \<open>
  From position \<open>-1\<close> at velocity \<open>-2\<close> the reference position is \<open>-2.6\<close>, the top edge
  is hit, and the final position is \<open>-1\<close> plus the final velocity, not \<open>-2.6\<close> plus it.
\<close>

theorem tick_final_bird_witness:
  "\<not> gameEnd (initialState\<lparr>bird := birdAt (- 1) (- 2)\<rparr>) \<and>
   verticalVelocity (bird (tick (initialState\<lparr>bird := birdAt (- 1) (- 2)\<rparr>))) =
     Num (- 16 / 10 + 13812673730 / 2147483647) \<and>
   verticalPosition (bird (tick (initialState\<lparr>bird := birdAt (- 1) (- 2)\<rparr>))) =
     Num (- 1 + (- 16 / 10 + 13812673730 / 2147483647)) \<and>
   newPosition (initialState\<lparr>bird := birdAt (- 1) (- 2)\<rparr>) = Num (- 26 / 10)"
proof -
  have g: "\<not> gameEnd (initialState\<lparr>bird := birdAt (- 1) (- 2)\<rparr>)"
    by (simp add: example_defs)
  have a: "pipeVelocityAdjustment (aggregatePipeResults
             (pipeResults (initialState\<lparr>bird := birdAt (- 1) (- 2)\<rparr>))) = Num 0"
    by (simp add: aggregatePipeResults_def pipeResults_def example_defs)
  have n: "newPosition (initialState\<lparr>bird := birdAt (- 1) (- 2)\<rparr>) = Num (- 26 / 10)"
    by (simp add: newPosition_def newVelocity_def example_defs constants_defs)
  have b: "boundaryVelocityAdjustment (initialState\<lparr>bird := birdAt (- 1) (- 2)\<rparr>) =
             Num (13812673730 / 2147483647)"
    by (simp add: boundaryVelocityAdjustment_def n)
      (simp add: newVelocity_def createRandomVelocity_def rng_defs example_defs constants_defs)
  have v: "verticalVelocity (bird (initialState\<lparr>bird := birdAt (- 1) (- 2)\<rparr>)) = Num (- 2)"
    and y: "verticalPosition (bird (initialState\<lparr>bird := birdAt (- 1) (- 2)\<rparr>)) = Num (- 1)"
    by (simp_all add: example_defs)
  from tick_final_bird [OF g]
  have "verticalVelocity (bird (tick (initialState\<lparr>bird := birdAt (- 1) (- 2)\<rparr>))) =
          Num (- 2) + GRAVITY + Num 0 + Num (13812673730 / 2147483647) \<and>
        verticalPosition (bird (tick (initialState\<lparr>bird := birdAt (- 1) (- 2)\<rparr>))) =
          Num (- 1) + verticalVelocity (bird (tick (initialState\<lparr>bird := birdAt (- 1) (- 2)\<rparr>)))"
    by (simp only: a b v y)
  then have "verticalVelocity (bird (tick (initialState\<lparr>bird := birdAt (- 1) (- 2)\<rparr>))) =
          Num (- 16 / 10 + 13812673730 / 2147483647) \<and>
        verticalPosition (bird (tick (initialState\<lparr>bird := birdAt (- 1) (- 2)\<rparr>))) =
          Num (- 1 + (- 16 / 10 + 13812673730 / 2147483647))"
    by (simp add: GRAVITY_def)
  with g n show ?thesis by blast
qed

section \<open>Lives\<close>

text \<open>
  Claim C8. While the game is running, \<open>tick\<close> returns \<open>lives - 1\<close> if the reference
  position is at or beyond the top or the bottom edge or \<open>processPipe\<close> fires a
  collision for at least one pipe of the state, however many, and \<open>lives\<close> unchanged
  otherwise.
\<close>

theorem tick_lives_decrement:
  assumes "\<not> gameEnd s"
  shows "lives (tick s) =
           (if newPosition s \<le> Num 0 \<or> newPosition s \<ge> CANVAS_HEIGHT \<or>
               (\<exists>p \<in> set (pipes s).
                  hitPipe (processPipe p birdX (newVelocity s) (newPosition s)))
            then lives s - 1 else lives s)"
  using tick_running(3) [OF assms] by (simp only: agg_hitPipe_iff)

text \<open>Two pipes that the bird hits on the same tick cost one life.\<close>

theorem tick_lives_decrement_witness:
  "\<not> gameEnd (initialState\<lparr>pipes := [pipeAt 180 50 20, pipeAt 170 50 20]\<rparr>) \<and>
   hitPipe (processPipe (pipeAt 180 50 20) birdX (Num (4 / 10)) (Num (2004 / 10))) \<and>
   hitPipe (processPipe (pipeAt 170 50 20) birdX (Num (4 / 10)) (Num (2004 / 10))) \<and>
   lives (initialState\<lparr>pipes := [pipeAt 180 50 20, pipeAt 170 50 20]\<rparr>) = 3 \<and>
   lives (tick (initialState\<lparr>pipes := [pipeAt 180 50 20, pipeAt 170 50 20]\<rparr>)) = 2"
proof -
  have g: "\<not> gameEnd (initialState\<lparr>pipes := [pipeAt 180 50 20, pipeAt 170 50 20]\<rparr>)"
    by (simp add: example_defs)
  have v: "newVelocity (initialState\<lparr>pipes := [pipeAt 180 50 20, pipeAt 170 50 20]\<rparr>) =
             Num (4 / 10)"
    and y: "newPosition (initialState\<lparr>pipes := [pipeAt 180 50 20, pipeAt 170 50 20]\<rparr>) =
             Num (2004 / 10)"
    by (simp_all add: newPosition_def newVelocity_def example_defs constants_defs)
  have h: "hitPipe (processPipe (pipeAt 180 50 20) birdX (Num (4 / 10)) (Num (2004 / 10)))"
    "hitPipe (processPipe (pipeAt 170 50 20) birdX (Num (4 / 10)) (Num (2004 / 10)))"
    by (simp_all add: processPipe_def inXRange_def inYGap_def pipeAt_def birdX_def
        constants_defs)
  have l: "lives (initialState\<lparr>pipes := [pipeAt 180 50 20, pipeAt 170 50 20]\<rparr>) = 3"
    by (simp add: example_defs)
  from tick_lives_decrement [OF g] g h l show ?thesis
    by (simp add: v y)
qed

section \<open>Monotonicity\<close>

lemma tick_lives_le: "lives (tick s) \<le> lives s"
  by (simp add: tick_def Let_def)

lemma tick_score_ge: "score s \<le> score (tick s)"
  by (simp add: tick_def Let_def totalScoreIncrease_nonneg)

lemma applyReducer_monotone:
  "lives (applyReducer r s) \<le> lives s \<and> score s \<le> score (applyReducer r s)"
  by (cases r) (simp_all add: tick_lives_le tick_score_ge jump_def spawn_def)

lemma scan_monotone: "lives (scan s rs) \<le> lives s \<and> score s \<le> score (scan s rs)"
  unfolding scan_def
proof (induction rs arbitrary: s)
  case Nil
  then show ?case by simp
next
  case (Cons r rs)
  from Cons.IH [of "applyReducer r s"] applyReducer_monotone [of r s]
  show ?case by simp
qed

text \<open>
  Claim C9. For every state, \<open>tick\<close> and \<open>jump\<close> return a state with no more lives and
  no less score, and so does the fold of any sequence of reducers (ticks, jumps and
  the spawns of the schedule) over the state.
\<close>

theorem lives_score_monotone:
  "lives (tick s) \<le> lives s \<and> score s \<le> score (tick s) \<and>
   lives (jump s) \<le> lives s \<and> score s \<le> score (jump s) \<and>
   lives (scan s rs) \<le> lives s \<and> score s \<le> score (scan s rs)"
  using scan_monotone [of s rs] by (simp add: tick_lives_le tick_score_ge jump_def)

text \<open>
  The bird starts just above the bottom edge. A pipe it has already left behind is
  spawned and scores on the first tick; the second tick takes the bird through the
  bottom edge and costs a life; a jump and a third tick follow.
\<close>

theorem lives_score_monotone_witness:
  "lives (initialState\<lparr>bird := birdAt (3995 / 10) 0\<rparr>) = 3 \<and>
   score (initialState\<lparr>bird := birdAt (3995 / 10) 0\<rparr>) = 0 \<and>
   lives (scan (initialState\<lparr>bird := birdAt (3995 / 10) 0\<rparr>)
     [Spawn (pipeAt 10 200 100), Tick, Tick, Jump, Tick]) = 2 \<and>
   score (scan (initialState\<lparr>bird := birdAt (3995 / 10) 0\<rparr>)
     [Spawn (pipeAt 10 200 100), Tick, Tick, Jump, Tick]) = 1 \<and>
   lives (scan (initialState\<lparr>bird := birdAt (3995 / 10) 0\<rparr>)
     [Spawn (pipeAt 10 200 100), Tick, Tick, Jump, Tick])
     \<le> lives (initialState\<lparr>bird := birdAt (3995 / 10) 0\<rparr>) \<and>
   score (initialState\<lparr>bird := birdAt (3995 / 10) 0\<rparr>)
     \<le> score (scan (initialState\<lparr>bird := birdAt (3995 / 10) 0\<rparr>)
          [Spawn (pipeAt 10 200 100), Tick, Tick, Jump, Tick])"
proof -
  have e: "lives (scan (initialState\<lparr>bird := birdAt (3995 / 10) 0\<rparr>)
             [Spawn (pipeAt 10 200 100), Tick, Tick, Jump, Tick]) = 2 \<and>
           score (scan (initialState\<lparr>bird := birdAt (3995 / 10) 0\<rparr>)
             [Spawn (pipeAt 10 200 100), Tick, Tick, Jump, Tick]) = 1"
    by (simp add: scan_def tick_def spawn_def jump_def Let_def processPipe_def inXRange_def
        inYGap_def aggregatePipeResults_def createRandomVelocity_def rng_defs birdX_def
        example_defs constants_defs)
  have i: "lives (initialState\<lparr>bird := birdAt (3995 / 10) 0\<rparr>) = 3 \<and>
           score (initialState\<lparr>bird := birdAt (3995 / 10) 0\<rparr>) = 0"
    by (simp add: example_defs)
  from lives_score_monotone [of "initialState\<lparr>bird := birdAt (3995 / 10) 0\<rparr>"
      "[Spawn (pipeAt 10 200 100), Tick, Tick, Jump, Tick]"]
  have m: "lives (scan (initialState\<lparr>bird := birdAt (3995 / 10) 0\<rparr>)
             [Spawn (pipeAt 10 200 100), Tick, Tick, Jump, Tick])
             \<le> lives (initialState\<lparr>bird := birdAt (3995 / 10) 0\<rparr>) \<and>
           score (initialState\<lparr>bird := birdAt (3995 / 10) 0\<rparr>)
             \<le> score (scan (initialState\<lparr>bird := birdAt (3995 / 10) 0\<rparr>)
                  [Spawn (pipeAt 10 200 100), Tick, Tick, Jump, Tick])"
    by blast
  from e i m show ?thesis by blast
qed

section \<open>Pipes that leave the canvas\<close>

lemma foldl_velocity_map:
  "foldl (\<lambda>sum result. sum + velocityAdjustment result) acc (map f ps) =
     foldl (\<lambda>sum p. sum + velocityAdjustment (f p)) acc ps"
  by (simp add: foldl_map)

text \<open>
  Claim C10. While the game is running, the score increase, the loss of a life and the
  pipe velocity adjustment of a tick are computed over every pipe of the state the tick
  starts from, whereas the pipes kept are only those whose trailing edge, after the
  advance, is still right of \<open>0\<close>: a pipe dropped on this tick is counted in the totals
  of this tick.
\<close>

theorem tick_totals_over_all_pipes:
  assumes "\<not> gameEnd s"
  shows "pipes (tick s) =
           filter (\<lambda>p. horizontalPosition p + PIPE_WIDTH > Num 0)
             (map (\<lambda>p. pipe (processPipe p birdX (newVelocity s) (newPosition s))) (pipes s)) \<and>
         score (tick s) = score s +
           (\<Sum>p\<leftarrow>pipes s. scoreIncrease (processPipe p birdX (newVelocity s) (newPosition s))) \<and>
         lives (tick s) =
           (if newPosition s \<le> Num 0 \<or> newPosition s \<ge> CANVAS_HEIGHT \<or>
               (\<exists>p \<in> set (pipes s).
                  hitPipe (processPipe p birdX (newVelocity s) (newPosition s)))
            then lives s - 1 else lives s) \<and>
         verticalVelocity (bird (tick s)) =
           newVelocity s +
           foldl (\<lambda>sum p. sum +
               velocityAdjustment (processPipe p birdX (newVelocity s) (newPosition s)))
             (Num 0) (pipes s)
           + boundaryVelocityAdjustment s"
proof -
  have "totalScoreIncrease (aggregatePipeResults (pipeResults s)) =
      (\<Sum>p\<leftarrow>pipes s. scoreIncrease (processPipe p birdX (newVelocity s) (newPosition s)))"
    by (simp add: aggregatePipeResults_def foldl_score_sum pipeResults_def comp_def)
  moreover have "pipeVelocityAdjustment (aggregatePipeResults (pipeResults s)) =
      foldl (\<lambda>sum p. sum +
          velocityAdjustment (processPipe p birdX (newVelocity s) (newPosition s)))
        (Num 0) (pipes s)"
    by (simp add: aggregatePipeResults_def pipeResults_def foldl_velocity_map)
  moreover have "map pipe (pipeResults s) =
      map (\<lambda>p. pipe (processPipe p birdX (newVelocity s) (newPosition s))) (pipes s)"
    by (simp add: pipeResults_def)
  ultimately show ?thesis
    using tick_running [OF assms] by (simp only: agg_hitPipe_iff simp_thms)
qed

text \<open>
  The only pipe of the state has its trailing edge at \<open>2\<close> and has not been counted
  yet: the tick drops it (the edge moves to \<open>-1\<close>) and still adds its point.
\<close>

theorem tick_totals_over_all_pipes_witness:
  "\<not> gameEnd (initialState\<lparr>pipes := [pipeAt (- 48) 200 100], gameStarted := True\<rparr>) \<and>
   pipes (tick (initialState\<lparr>pipes := [pipeAt (- 48) 200 100], gameStarted := True\<rparr>)) = [] \<and>
   score (initialState\<lparr>pipes := [pipeAt (- 48) 200 100], gameStarted := True\<rparr>) = 0 \<and>
   score (tick (initialState\<lparr>pipes := [pipeAt (- 48) 200 100], gameStarted := True\<rparr>)) = 1"
proof -
  have g: "\<not> gameEnd (initialState\<lparr>pipes := [pipeAt (- 48) 200 100], gameStarted := True\<rparr>)"
    and z: "score (initialState\<lparr>pipes := [pipeAt (- 48) 200 100], gameStarted := True\<rparr>) = 0"
    and p: "pipes (initialState\<lparr>pipes := [pipeAt (- 48) 200 100], gameStarted := True\<rparr>) =
              [pipeAt (- 48) 200 100]"
    by (simp_all add: example_defs)
  have r: "processPipe (pipeAt (- 48) 200 100) birdX v y =
      \<lparr>pipe = (pipeAt (- 51) 200 100)\<lparr>passed := True\<rparr>, hitPipe = False,
       scoreIncrease = 1, velocityAdjustment = Num 0\<rparr>" for v y
    by (simp add: processPipe_def inXRange_def pipeAt_def birdX_def constants_defs
        createRandomVelocity_no_collision)
  from tick_totals_over_all_pipes [OF g] g z show ?thesis
    by (simp add: p r) (simp add: pipeAt_def constants_defs)
qed

end
